theory Spec2Isabelle
  imports Complex_Main "HOL-Library.Word" "HOL-Library.Signed_Division"
begin

section \<open>The bimg resizer: data model\<close>

text \<open>
  A shallow embedding of \<^verbatim>\<open>resizer.go\<close> and of the \<^verbatim>\<open>VipsImage\<close> wrapper.

  Go's \<^verbatim>\<open>int\<close> is modelled by \<^typ>\<open>int\<close>: image dimensions are C ints and the
  arithmetic of the resizer (one subtraction, one increment, a halving) stays far inside
  64 bits for them. Go's \<^verbatim>\<open>/\<close> and \<^verbatim>\<open>%\<close> on integers truncate towards zero: they
  are \<open>sdiv\<close> and \<open>smod\<close>, not HOL's flooring \<open>div\<close> and \<open>mod\<close>.

  Go's \<^verbatim>\<open>float64\<close> is modelled by \<^typ>\<open>real\<close>: exact arithmetic, without rounding
  error and without infinities or NaN. Where Go divides a float by zero the result is an
  infinity or NaN, and 0 in HOL: \<^verbatim>\<open>xfactor\<close> and \<^verbatim>\<open>yfactor\<close> for a target of 0 (which
  \<^verbatim>\<open>imageCalculations\<close> never reads), and the residuals for an image or a target of size 0.
  The theorems on the geometry assume positive input dimensions; the theorems on the order
  and the trace of the operations do not depend on the values of the residuals.
\<close>

type_synonym Angle = int
type_synonym Interpolator = int
type_synonym Extend = int
type_synonym Interpretation = int
type_synonym bytes = "8 word list"

text \<open>
  Modelled from the spec: the declarations of \<^verbatim>\<open>Options\<close>, \<^verbatim>\<open>Gravity\<close>, \<^verbatim>\<open>ImageType\<close>,
  \<^verbatim>\<open>Direction\<close>, \<^verbatim>\<open>Angle\<close> (with \<^verbatim>\<open>D0\<close>, \<^verbatim>\<open>D90\<close>, \<^verbatim>\<open>D180\<close>, \<^verbatim>\<open>D270\<close>), \<^verbatim>\<open>Color\<close> (with
  \<^verbatim>\<open>ColorBlack\<close>), \<^verbatim>\<open>GaussianBlur\<close>, \<^verbatim>\<open>Sharpen\<close>, \<^verbatim>\<open>Watermark\<close> and \<^verbatim>\<open>WatermarkImage\<close> are not
  among the source files. The records below have the fields the source reads and writes,
  named as the source names them (a field name used by two structs carries a suffix in the
  smaller one: \<open>Width_wm\<close>, \<open>Opacity_wi\<close>); the zero value of every field is Go's (0, false,
  the empty string, the first constructor of an enumeration).
\<close>

datatype Gravity =
  GravityCentre | GravityNorth | GravityEast | GravitySouth | GravityWest | GravitySmart

datatype ImageType = UNKNOWN | JPEG | WEBP | PNG | TIFF | GIF | PDF | SVG | MAGICK

datatype Direction = Horizontal | Vertical

record Color =
  R :: "8 word"
  G :: "8 word"
  B :: "8 word"

definition ColorBlack :: Color where
  "ColorBlack = \<lparr>R = 0, G = 0, B = 0\<rparr>"

record GaussianBlur =
  Sigma :: real
  MinAmpl :: real

record Sharpen =
  Radius :: int
  X1 :: real
  Y2 :: real
  Y3 :: real
  M1 :: real
  M2 :: real

record Watermark =
  Width_wm :: int
  DPI :: int
  Margin :: int
  Opacity_wm :: real
  NoReplicate :: bool
  Text :: string
  Font :: string
  Background_wm :: Color

record WatermarkImage =
  Left_wi :: int
  Top_wi :: int
  Buf :: bytes
  Opacity_wi :: real

record Options =
  Height :: int
  Width :: int
  AreaHeight :: int
  AreaWidth :: int
  Top :: int
  Left :: int
  MaxWidth :: int
  MaxHeight :: int
  MinWidth :: int
  MinHeight :: int
  Quality :: int
  Compression :: int
  Zoom :: int
  Crop :: bool
  SmartCrop :: bool
  Enlarge :: bool
  Embed :: bool
  Flip :: bool
  Flop :: bool
  Force :: bool
  NoAutoRotate :: bool
  NoProfile :: bool
  Interlace :: bool
  StripMetadata :: bool
  Trim :: bool
  Lossless :: bool
  Extend :: Extend
  Rotate :: Angle
  Background :: Color
  Gravity :: Gravity
  Watermark :: Watermark
  WatermarkImage :: WatermarkImage
  Type :: ImageType
  Interpolator :: Interpolator
  Interpretation :: Interpretation
  GaussianBlur :: GaussianBlur
  Sharpen :: Sharpen
  Threshold :: real
  OutputICC :: string

text \<open>
  A \<^verbatim>\<open>*C.VipsImage\<close>: a pointer, possibly nil, to a native image with its
  \<^verbatim>\<open>Xsize\<close> and \<^verbatim>\<open>Ysize\<close>. Reading a field through a nil pointer panics.
\<close>

record C_VipsImage =
  ident :: nat
  Xsize :: int
  Ysize :: int

type_synonym ptr = "C_VipsImage option"

datatype 'a outcome = Panic | Return 'a

text \<open>
  Go errors. \<^verbatim>\<open>errors.New\<close> and \<^verbatim>\<open>fmt.Errorf\<close> values are identified by their message
  (Go compares them by identity, which is finer); an error of the native library carries
  the library's message.
\<close>

datatype error = errorsNew string | vipsError string

definition ErrExtractAreaParamsRequired :: error where
  "ErrExtractAreaParamsRequired = errorsNew ''extract area width/height params are required''"

section \<open>The native imaging adapter\<close>

text \<open>
  The functions of the libvips binding are outside the source files. Every call the
  resizer makes to one that produces an image, a buffer or a trim box is a value of
  \<open>call\<close>; what the call returns is a parameter of the model (\<open>run\<close>), and the calls made
  are recorded in order in a trace, so that "this operation ran" and "nothing ran after the
  failure" are statements about the trace. The two queries \<^verbatim>\<open>vipsExifOrientation\<close> and
  \<^verbatim>\<open>vipsWindowSize\<close> leave no entry in the trace.
\<close>

datatype call =
    vipsRotate ptr Angle
  | vipsFlip ptr Direction
  | getImageBuffer ptr
  | vipsShrinkJpeg bytes ptr int
  | vipsShrinkWebp bytes ptr int
  | vipsZoom ptr int
  | vipsShrink ptr int
  | vipsReduce ptr real real
  | vipsAffine ptr real real Interpolator
  | vipsSmartCrop ptr int int
  | vipsExtract ptr int int int int
  | vipsEmbed ptr int int int int Extend Color
  | vipsTrim ptr Color real
  | vipsGaussianBlur ptr GaussianBlur
  | vipsSharpen ptr Sharpen
  | vipsWatermark ptr Watermark
  | vipsDrawWatermark ptr WatermarkImage
  | vipsFlattenBackground ptr Color

text \<open>
  Modelled from the spec: the package constants \<^verbatim>\<open>Quality\<close>, \<^verbatim>\<open>InterpretationSRGB\<close>,
  \<^verbatim>\<open>WatermarkFont\<close>, \<^verbatim>\<open>VipsMajorVersion\<close>, \<^verbatim>\<open>VipsMinorVersion\<close> and the functions
  \<^verbatim>\<open>IsTypeSupported\<close>, \<^verbatim>\<open>ImageTypeName\<close>, \<^verbatim>\<open>Interpolator.String\<close>,
  \<^verbatim>\<open>vipsWindowSize\<close>, \<^verbatim>\<open>vipsExifOrientation\<close> are declared outside the source files; they
  are fields of the adapter, as are the results of the native calls (\<open>run\<close> for the
  calls that return an image and an error, \<open>run_getImageBuffer\<close> and \<open>run_vipsTrim\<close> for
  the two that return something else).
\<close>

record vips =
  IsTypeSupported :: "ImageType \<Rightarrow> bool"
  ImageTypeName :: "ImageType \<Rightarrow> string"
  VipsMajorVersion :: int
  VipsMinorVersion :: int
  Quality_const :: int
  InterpretationSRGB :: Interpretation
  WatermarkFont :: string
  Interpolator_String :: "Interpolator \<Rightarrow> string"
  vipsWindowSize :: "string \<Rightarrow> real"
  vipsExifOrientation :: "ptr \<Rightarrow> int"
  run :: "call \<Rightarrow> ptr \<times> error option"
  run_getImageBuffer :: "ptr \<Rightarrow> bytes \<times> error option"
  run_vipsTrim :: "ptr \<Rightarrow> Color \<Rightarrow> real \<Rightarrow> (int \<times> int \<times> int \<times> int) \<times> error option"

definition native :: "vips \<Rightarrow> call \<Rightarrow> call list \<Rightarrow> (ptr \<times> error option) \<times> call list" where
  "native V c tr = (run V c, tr @ [c])"

definition native_getImageBuffer ::
  "vips \<Rightarrow> ptr \<Rightarrow> call list \<Rightarrow> (bytes \<times> error option) \<times> call list" where
  "native_getImageBuffer V img tr = (run_getImageBuffer V img, tr @ [getImageBuffer img])"

definition native_vipsTrim ::
  "vips \<Rightarrow> ptr \<Rightarrow> Color \<Rightarrow> real \<Rightarrow> call list
    \<Rightarrow> ((int \<times> int \<times> int \<times> int) \<times> error option) \<times> call list" where
  "native_vipsTrim V img bg th tr = (run_vipsTrim V img bg th, tr @ [vipsTrim img bg th])"

definition D0 :: Angle where "D0 = 0"
definition D90 :: Angle where "D90 = 90"
definition D180 :: Angle where "D180 = 180"
definition D270 :: Angle where "D270 = 270"

text \<open>Conversion \<^verbatim>\<open>int(f)\<close> of a float to an integer: the fraction is discarded.\<close>

definition go_int :: "real \<Rightarrow> int" where
  "go_int f = (if f < 0 then \<lceil>f\<rceil> else \<lfloor>f\<rfloor>)"

section \<open>Options normalization\<close>

definition applyDefaults :: "vips \<Rightarrow> Options \<Rightarrow> ImageType \<Rightarrow> Options" where
  "applyDefaults V opts imageType =
     (let o1 = (if Quality opts = 0 then opts\<lparr>Quality := Quality_const V\<rparr> else opts);
          o2 = (if Compression o1 = 0 then o1\<lparr>Compression := 6\<rparr> else o1);
          o3 = (if Type o2 = UNKNOWN then o2\<lparr>Type := imageType\<rparr> else o2);
          o4 = (if Interpretation o3 = 0 then o3\<lparr>Interpretation := InterpretationSRGB V\<rparr> else o3)
      in o4)"

definition normalizeOperation :: "Options \<Rightarrow> int \<Rightarrow> int \<Rightarrow> Options" where
  "normalizeOperation opts inWidth inHeight =
     (let o1 = (if \<not> Force opts \<and> \<not> Crop opts \<and> \<not> Embed opts \<and> \<not> Enlarge opts \<and> Rotate opts = 0
                   \<and> (Width opts > 0 \<or> Height opts > 0)
                then opts\<lparr>Force := True\<rparr> else opts);
          o2 = (if MaxWidth o1 > 0 \<and> inWidth > MaxWidth o1 then
                  (if Width o1 > 0 then
                     (if Width o1 > MaxWidth o1 then o1\<lparr>Width := MaxWidth o1\<rparr> else o1)
                   else o1\<lparr>Width := MaxWidth o1\<rparr>)
                else o1);
          o3 = (if MaxHeight o2 > 0 \<and> inHeight > MaxHeight o2 then
                  (if Height o2 > 0 then
                     (if Height o2 > MaxHeight o2 then o2\<lparr>Height := MaxHeight o2\<rparr> else o2)
                   else o2\<lparr>Height := MaxHeight o2\<rparr>)
                else o2);
          o4 = (if MinWidth o3 > 0 \<and> inWidth < MinWidth o3 then
                  (if Width o3 > 0 then
                     (if Width o3 < MinWidth o3 then o3\<lparr>Width := MinWidth o3\<rparr> else o3)
                   else o3\<lparr>Width := MinWidth o3\<rparr>)
                else o3);
          o5 = (if MinHeight o4 > 0 \<and> inHeight < MinHeight o4 then
                  (if Height o4 > 0 then
                     (if Height o4 < MinHeight o4 then o4\<lparr>Height := MinHeight o4\<rparr> else o4)
                   else o4\<lparr>Height := MinHeight o4\<rparr>)
                else o4)
      in o5)"

definition shouldTransformImage :: "Options \<Rightarrow> int \<Rightarrow> int \<Rightarrow> bool" where
  "shouldTransformImage opts inWidth inHeight =
     (Force opts \<or> (Width opts > 0 \<and> Width opts \<noteq> inWidth) \<or>
      (Height opts > 0 \<and> Height opts \<noteq> inHeight) \<or> AreaWidth opts > 0 \<or> AreaHeight opts > 0 \<or>
      Trim opts)"

definition shouldApplyEffects :: "Options \<Rightarrow> bool" where
  "shouldApplyEffects opts =
     (Sigma (GaussianBlur opts) > 0 \<or> MinAmpl (GaussianBlur opts) > 0 \<or>
      Radius (Sharpen opts) > 0 \<and> Y2 (Sharpen opts) > 0 \<or> Y3 (Sharpen opts) > 0)"

section \<open>Geometry calculator\<close>

definition roundFloat :: "real \<Rightarrow> int" where
  "roundFloat f =
     (if f < 0 then go_int (of_int \<lceil>f - 0.5\<rceil>)
      else go_int (of_int \<lfloor>f + 0.5\<rfloor>))"

fun calculateCrop :: "int \<Rightarrow> int \<Rightarrow> int \<Rightarrow> int \<Rightarrow> Gravity \<Rightarrow> int \<times> int" where
  "calculateCrop inWidth inHeight outWidth outHeight GravityNorth =
     ((inWidth - outWidth + 1) sdiv 2, 0)"
| "calculateCrop inWidth inHeight outWidth outHeight GravityEast =
     (inWidth - outWidth, (inHeight - outHeight + 1) sdiv 2)"
| "calculateCrop inWidth inHeight outWidth outHeight GravitySouth =
     ((inWidth - outWidth + 1) sdiv 2, inHeight - outHeight)"
| "calculateCrop inWidth inHeight outWidth outHeight GravityWest =
     (0, (inHeight - outHeight + 1) sdiv 2)"
| "calculateCrop inWidth inHeight outWidth outHeight _ =
     ((inWidth - outWidth + 1) sdiv 2, (inHeight - outHeight + 1) sdiv 2)"

text \<open>
  The clamping of the crop branch of \<^verbatim>\<open>extractOrEmbedImage\<close>:
  \<^verbatim>\<open>left, top = int(math.Max(float64(left), 0)), int(math.Max(float64(top), 0))\<close>.
\<close>

definition clampCrop :: "int \<times> int \<Rightarrow> int \<times> int" where
  "clampCrop lt = (go_int (max (of_int (fst lt)) 0), go_int (max (of_int (snd lt)) 0))"

definition getAngle :: "Angle \<Rightarrow> Angle" where
  "getAngle angle =
     (let divisor = angle smod 90;
          angle' = (if divisor \<noteq> 0 then angle - divisor else angle)
      in go_int (min (of_int angle') 270))"

text \<open>
  \<^verbatim>\<open>imageCalculations\<close> writes the target size into the options it is given; the model
  returns the factor and the updated options.
\<close>

definition imageCalculations :: "Options \<Rightarrow> int \<Rightarrow> int \<Rightarrow> real \<times> Options" where
  "imageCalculations opts inWidth inHeight =
     (let factor = 1;
          xfactor = of_int inWidth / of_int (Width opts);
          yfactor = of_int inHeight / of_int (Height opts)
      in if Width opts > 0 \<and> Height opts > 0 then
           (if Crop opts then (min xfactor yfactor, opts) else (max xfactor yfactor, opts))
         else if Width opts > 0 then
           (if Crop opts then (factor, opts\<lparr>Height := inHeight\<rparr>)
            else (xfactor, opts\<lparr>Height := roundFloat (of_int inHeight / xfactor)\<rparr>))
         else if Height opts > 0 then
           (if Crop opts then (factor, opts\<lparr>Width := inWidth\<rparr>)
            else (yfactor, opts\<lparr>Width := roundFloat (of_int inWidth / yfactor)\<rparr>))
         else (factor, opts\<lparr>Width := inWidth, Height := inHeight\<rparr>))"

definition calculateShrink :: "vips \<Rightarrow> real \<Rightarrow> Interpolator \<Rightarrow> int" where
  "calculateShrink V factor i =
     (let windowSize = vipsWindowSize V (Interpolator_String V i);
          shrink = (if factor \<ge> 2 \<and> windowSize > 3
                    then of_int \<lfloor>factor * 3.0 / windowSize\<rfloor>
                    else of_int \<lfloor>factor\<rfloor>)
      in go_int (max shrink 1))"

definition calculateResidual :: "real \<Rightarrow> int \<Rightarrow> real" where
  "calculateResidual factor shrink = of_int shrink / factor"

definition calculateRotationAndFlip :: "vips \<Rightarrow> ptr \<Rightarrow> Angle \<Rightarrow> Angle \<times> bool" where
  "calculateRotationAndFlip V img angle =
     (if angle > 0 then (D0, False)
      else let orientation = vipsExifOrientation V img in
        if orientation = 6 then (D90, False)
        else if orientation = 3 then (D180, False)
        else if orientation = 8 then (D270, False)
        else if orientation = 2 then (D0, True)
        else if orientation = 7 then (D270, True)
        else if orientation = 4 then (D180, True)
        else if orientation = 5 then (D90, True)
        else (D0, False))"


section \<open>Pipeline stages\<close>

text \<open>
  A stage takes the trace of the native calls made so far and returns its Go results with
  the extended trace. A Go function returning \<^verbatim>\<open>(*C.VipsImage, error)\<close> returns a pair
  \<open>(pointer, error option)\<close>, \<open>None\<close> being nil on either side. A stage that reads
  \<^verbatim>\<open>image.Xsize\<close> has an \<open>outcome\<close>: \<open>Panic\<close> when the pointer is nil.
\<close>

definition rotateAndFlipImage ::
  "vips \<Rightarrow> ptr \<Rightarrow> Options \<Rightarrow> call list \<Rightarrow> (ptr \<times> bool \<times> error option) \<times> call list" where
  "rotateAndFlipImage V img opts tr =
     (let o1 = (if NoAutoRotate opts = False then
                  (let (rotation, flp) = calculateRotationAndFlip V img (Rotate opts);
                       oa = (if flp then opts\<lparr>Flip := flp\<rparr> else opts);
                       ob = (if rotation > 0 \<and> Rotate oa = 0 then oa\<lparr>Rotate := rotation\<rparr> else oa)
                   in ob)
                else opts);
          s0 = ((img, False, None), tr);
          s1 = (if Rotate o1 > 0 then
                  (case s0 of ((img0, rotated0, err0), tr0) \<Rightarrow>
                     (case native V (vipsRotate img0 (getAngle (Rotate o1))) tr0 of
                        ((img1, err1), tr1) \<Rightarrow> ((img1, True, err1), tr1)))
                else s0);
          s2 = (if Flip o1 then
                  (case s1 of ((img1, rotated1, err1), tr1) \<Rightarrow>
                     (case native V (vipsFlip img1 Vertical) tr1 of
                        ((img2, err2), tr2) \<Rightarrow> ((img2, True, err2), tr2)))
                else s1);
          s3 = (if Flop o1 then
                  (case s2 of ((img2, rotated2, err2), tr2) \<Rightarrow>
                     (case native V (vipsFlip img2 Horizontal) tr2 of
                        ((img3, err3), tr3) \<Rightarrow> ((img3, True, err3), tr3)))
                else s2)
      in s3)"

definition zoomImage :: "vips \<Rightarrow> ptr \<Rightarrow> int \<Rightarrow> call list \<Rightarrow> (ptr \<times> error option) \<times> call list" where
  "zoomImage V img zoom tr =
     (if zoom = 0 then ((img, None), tr) else native V (vipsZoom img (zoom + 1)) tr)"

definition shrinkImage ::
  "vips \<Rightarrow> ptr \<Rightarrow> Options \<Rightarrow> real \<Rightarrow> int \<Rightarrow> call list
    \<Rightarrow> (ptr \<times> real \<times> error option) outcome \<times> call list" where
  "shrinkImage V img opts residual shrink tr =
     (case native V (vipsShrink img shrink) tr of
        ((img1, err), tr1) \<Rightarrow>
          if err \<noteq> None then (Return (None, 0, err), tr1)
          else (case img1 of
                  None \<Rightarrow> (Panic, tr1)
                | Some im \<Rightarrow>
                    let residualx = of_int (Width opts) / of_int (Xsize im);
                        residualy = of_int (Height opts) / of_int (Ysize im);
                        residual1 = (if Crop opts then max residualx residualy
                                     else min residualx residualy)
                    in (Return (img1, residual1, None), tr1)))"

definition shrinkOnLoad ::
  "vips \<Rightarrow> bytes \<Rightarrow> ptr \<Rightarrow> ImageType \<Rightarrow> real \<Rightarrow> int \<Rightarrow> call list
    \<Rightarrow> (ptr \<times> real \<times> error option) \<times> call list" where
  "shrinkOnLoad V buf input imageType factor shrink tr =
     (if imageType = JPEG \<and> shrink \<ge> 2 then
        (let (factor1, shrinkOnLoad1) =
               (if shrink \<ge> 8 then (factor / 8, 8)
                else if shrink \<ge> 4 then (factor / 4, 4)
                else if shrink \<ge> 2 then (factor / 2, 2)
                else (factor, 1))
         in case native V (vipsShrinkJpeg buf input shrinkOnLoad1) tr of
              ((img, err), tr1) \<Rightarrow> ((img, factor1, err), tr1))
      else if imageType = WEBP then
        (case native V (vipsShrinkWebp buf input shrink) tr of
           ((img, err), tr1) \<Rightarrow> ((img, factor, err), tr1))
      else ((None, 0, Some (errorsNew (ImageTypeName V imageType @ '' doesn't support shrink on load''))), tr))"

section \<open>Operation selector\<close>

text \<open>
  In the trim case of the source, \<^verbatim>\<open>left, top, width, height, err := vipsTrim(...)\<close>
  declares a new \<^verbatim>\<open>err\<close> in the scope of the case clause, and the assignment
  \<^verbatim>\<open>tmpImage, err = vipsExtract(...)\<close> writes that inner variable. The \<^verbatim>\<open>err\<close> tested
  after the switch is the outer one, still nil: the trim case returns
  \<^verbatim>\<open>tmpImage, nil\<close> whatever the two native calls returned.
\<close>

definition extractOrEmbedImage ::
  "vips \<Rightarrow> ptr \<Rightarrow> Options \<Rightarrow> call list \<Rightarrow> (ptr \<times> error option) outcome \<times> call list" where
  "extractOrEmbedImage V img opts tr =
     (case img of
        None \<Rightarrow> (Panic, tr)
      | Some im \<Rightarrow>
          let inWidth = Xsize im; inHeight = Ysize im;
              finish = (\<lambda>r. case r of ((tmpImage, err), tr1) \<Rightarrow>
                          if err \<noteq> None then (Return (img, err), tr1)
                          else (Return (tmpImage, err), tr1))
          in
          if Gravity opts = GravitySmart \<or> SmartCrop opts then
            finish (native V (vipsSmartCrop img (Width opts) (Height opts)) tr)
          else if Crop opts then
            (let width = go_int (min (of_int inWidth) (of_int (Width opts)));
                 height = go_int (min (of_int inHeight) (of_int (Height opts)));
                 (left, top1) = clampCrop (calculateCrop inWidth inHeight (Width opts) (Height opts) (Gravity opts))
             in finish (native V (vipsExtract img left top1 width height) tr))
          else if Embed opts then
            (let left = (Width opts - inWidth) sdiv 2; top1 = (Height opts - inHeight) sdiv 2
             in finish (native V (vipsEmbed img left top1 (Width opts) (Height opts) (Extend opts) (Background opts)) tr))
          else if Trim opts then
            (case native_vipsTrim V img (Background opts) (Threshold opts) tr of
               (((left, top1, width, height), err1), tr1) \<Rightarrow>
                 if err1 = None then
                   (case native V (vipsExtract img left top1 width height) tr1 of
                      ((tmpImage, err2), tr2) \<Rightarrow> finish ((tmpImage, None), tr2))
                 else finish ((img, None), tr1))
          else if Top opts \<noteq> 0 \<or> Left opts \<noteq> 0 \<or> AreaWidth opts \<noteq> 0 \<or> AreaHeight opts \<noteq> 0 then
            (let o1 = (if AreaWidth opts = 0 then opts\<lparr>AreaWidth := Width opts\<rparr> else opts);
                 o2 = (if AreaHeight o1 = 0 then o1\<lparr>AreaHeight := Height o1\<rparr> else o1)
             in if AreaWidth o2 = 0 \<or> AreaHeight o2 = 0 then
                  (Return (None, Some (errorsNew ''Extract area width/height params are required'')), tr)
                else finish (native V (vipsExtract img (Left o2) (Top o2) (AreaWidth o2) (AreaHeight o2)) tr))
          else finish ((img, None), tr))"

section \<open>Transform, effects, watermark, flatten\<close>

text \<open>
  \<^verbatim>\<open>transformImage\<close> in three parts, in the order of its body: the integral shrink, the
  residual resize (\<open>transformImage_resize\<close>, from \<^verbatim>\<open>residualx, residualy := ...\<close> on) and the
  call of the operation selector (\<open>transformImage_extract\<close>, from the second
  \<^verbatim>\<open>if o.Force\<close> on).
\<close>

definition transformImage_extract ::
  "vips \<Rightarrow> ptr \<Rightarrow> Options \<Rightarrow> call list \<Rightarrow> (ptr \<times> error option) outcome \<times> call list" where
  "transformImage_extract V img opts tr =
     (let o1 = (if Force opts then opts\<lparr>Crop := False, Embed := False\<rparr> else opts)
      in case extractOrEmbedImage V img o1 tr of
           (Panic, tr1) \<Rightarrow> (Panic, tr1)
         | (Return (imageOut, err), tr1) \<Rightarrow>
             if err \<noteq> None then (Return (img, err), tr1) else (Return (imageOut, None), tr1))"

definition transformImage_resize ::
  "vips \<Rightarrow> ptr \<Rightarrow> Options \<Rightarrow> real \<Rightarrow> call list \<Rightarrow> (ptr \<times> error option) outcome \<times> call list" where
  "transformImage_resize V img opts residual tr =
     (case (if Force opts then
              (case img of
                 None \<Rightarrow> None
               | Some im \<Rightarrow> Some (of_int (Width opts) / of_int (Xsize im),
                                   of_int (Height opts) / of_int (Ysize im)))
            else Some (residual, residual)) of
        None \<Rightarrow> (Panic, tr)
      | Some (residualx, residualy) \<Rightarrow>
          if Force opts \<or> residual \<noteq> 0 then
            (case (if residualx < 1 \<and> residualy < 1
                   then native V (vipsReduce img (1 / residualx) (1 / residualy)) tr
                   else native V (vipsAffine img residualx residualy (Interpolator opts)) tr) of
               ((tmpImage, err), tr1) \<Rightarrow>
                 if err \<noteq> None then (Return (img, err), tr1)
                 else transformImage_extract V tmpImage opts tr1)
          else transformImage_extract V img opts tr)"

definition transformImage ::
  "vips \<Rightarrow> ptr \<Rightarrow> Options \<Rightarrow> int \<Rightarrow> real \<Rightarrow> call list \<Rightarrow> (ptr \<times> error option) outcome \<times> call list" where
  "transformImage V img opts shrink residual tr =
     (if shrink > 1 then
        (case shrinkImage V img opts residual shrink tr of
           (Panic, tr1) \<Rightarrow> (Panic, tr1)
         | (Return (tmpImage, residual1, err), tr1) \<Rightarrow>
             if err \<noteq> None then (Return (img, err), tr1)
             else transformImage_resize V tmpImage opts residual1 tr1)
      else transformImage_resize V img opts residual tr)"

definition applyEffects ::
  "vips \<Rightarrow> ptr \<Rightarrow> Options \<Rightarrow> call list \<Rightarrow> (ptr \<times> error option) \<times> call list" where
  "applyEffects V img opts tr =
     (case (if Sigma (GaussianBlur opts) > 0 \<or> MinAmpl (GaussianBlur opts) > 0
            then native V (vipsGaussianBlur img (GaussianBlur opts)) tr
            else ((img, None), tr)) of
        ((img1, err1), tr1) \<Rightarrow>
          if err1 \<noteq> None then ((None, err1), tr1)
          else
            (case (if Radius (Sharpen opts) > 0 \<and> Y2 (Sharpen opts) > 0 \<or> Y3 (Sharpen opts) > 0
                   then native V (vipsSharpen img1 (Sharpen opts)) tr1
                   else ((img1, None), tr1)) of
               ((img2, err2), tr2) \<Rightarrow>
                 if err2 \<noteq> None then ((None, err2), tr2) else ((img2, None), tr2)))"

definition watermarkImageWithText ::
  "vips \<Rightarrow> ptr \<Rightarrow> Watermark \<Rightarrow> call list \<Rightarrow> (ptr \<times> error option) outcome \<times> call list" where
  "watermarkImageWithText V img w tr =
     (if Text w = [] then (Return (img, None), tr)
      else
        let w1 = (if Font w = [] then w\<lparr>Font := WatermarkFont V\<rparr> else w)
        in case (if Width_wm w1 = 0 then
                   (case img of
                      None \<Rightarrow> None
                    | Some im \<Rightarrow> Some (w1\<lparr>Width_wm := go_int (of_int \<lfloor>of_int (Xsize im sdiv 6) :: real\<rfloor>)\<rparr>))
                 else Some w1) of
             None \<Rightarrow> (Panic, tr)
           | Some w2 \<Rightarrow>
               let w3 = (if DPI w2 = 0 then w2\<lparr>DPI := 150\<rparr> else w2);
                   w4 = (if Margin w3 = 0 then w3\<lparr>Margin := Width_wm w3\<rparr> else w3);
                   w5 = (if Opacity_wm w4 = 0 then w4\<lparr>Opacity_wm := 0.25\<rparr>
                         else if Opacity_wm w4 > 1 then w4\<lparr>Opacity_wm := 1\<rparr> else w4)
               in case native V (vipsWatermark img w5) tr of
                    ((tmpImage, err), tr1) \<Rightarrow>
                      if err \<noteq> None then (Return (img, err), tr1)
                      else (Return (tmpImage, None), tr1))"

definition watermarkImageWithAnotherImage ::
  "vips \<Rightarrow> ptr \<Rightarrow> WatermarkImage \<Rightarrow> call list \<Rightarrow> (ptr \<times> error option) \<times> call list" where
  "watermarkImageWithAnotherImage V img w tr =
     (if length (Buf w) = 0 then ((img, None), tr)
      else
        let w1 = (if Opacity_wi w = 0 then w\<lparr>Opacity_wi := 1\<rparr> else w)
        in case native V (vipsDrawWatermark img w1) tr of
             ((img1, err), tr1) \<Rightarrow>
               if err \<noteq> None then ((None, err), tr1) else ((img1, None), tr1))"

definition imageFlatten ::
  "vips \<Rightarrow> ptr \<Rightarrow> ImageType \<Rightarrow> Options \<Rightarrow> call list \<Rightarrow> (ptr \<times> error option) \<times> call list" where
  "imageFlatten V img imageType opts tr =
     (if imageType \<noteq> PNG \<or> Background opts = ColorBlack then ((img, None), tr)
      else native V (vipsFlattenBackground img (Background opts)) tr)"

section \<open>The pipeline\<close>

text \<open>
  \<^verbatim>\<open>process\<close> is one function in the source. Its body is split here at three places:
  \<open>process_geometry\<close> is the computation from \<^verbatim>\<open>normalizeOperation(&o, inWidth, inHeight)\<close>
  to the end of the "do not enlarge" guard, \<open>process_shrinkOnLoad\<close> the shrink-on-load block
  that follows, and \<open>process_stages\<close> the rest, from \<^verbatim>\<open>zoomImage\<close> on. \<^verbatim>\<open>*buf\<close> is
  written by \<^verbatim>\<open>process\<close>: the model returns the buffer with the result.
\<close>

definition process_geometry :: "vips \<Rightarrow> Options \<Rightarrow> int \<Rightarrow> int \<Rightarrow> real \<times> int \<times> real \<times> Options" where
  "process_geometry V opts inWidth inHeight =
     (let o1 = normalizeOperation opts inWidth inHeight;
          (factor, o2) = imageCalculations o1 inWidth inHeight;
          shrink = calculateShrink V factor (Interpolator o2);
          residual = calculateResidual factor shrink
      in if \<not> Enlarge o2 \<and> \<not> Force o2 then
           (if inWidth < Width o2 \<and> inHeight < Height o2
            then (1, 1, 0, o2\<lparr>Width := inWidth, Height := inHeight\<rparr>)
            else (factor, shrink, residual, o2))
         else (factor, shrink, residual, o2))"

definition process_shrinkOnLoad ::
  "vips \<Rightarrow> ImageType \<Rightarrow> bytes \<Rightarrow> ptr \<Rightarrow> real \<Rightarrow> int \<Rightarrow> real \<Rightarrow> call list
    \<Rightarrow> (error option \<times> ptr \<times> int \<times> real) \<times> call list" where
  "process_shrinkOnLoad V imageType buf image1 factor shrink residual tr =
     (let supportsShrinkOnLoad =
            ((imageType = WEBP \<and> VipsMajorVersion V \<ge> 8 \<and> VipsMinorVersion V \<ge> 3)
             \<or> imageType = JPEG)
      in if supportsShrinkOnLoad \<and> shrink \<ge> 2 then
           (case shrinkOnLoad V buf image1 imageType factor shrink tr of
              ((tmpImage, factor1, err), tr1) \<Rightarrow>
                if err \<noteq> None then ((err, image1, shrink, residual), tr1)
                else
                  let factor2 = max factor1 1;
                      shrink1 = go_int (of_int \<lfloor>factor2\<rfloor>)
                  in ((None, tmpImage, shrink1, of_int shrink1 / factor2), tr1))
         else ((None, image1, shrink, residual), tr))"

definition process_stages ::
  "vips \<Rightarrow> ptr \<Rightarrow> ImageType \<Rightarrow> Options \<Rightarrow> int \<Rightarrow> int \<Rightarrow> int \<Rightarrow> real \<Rightarrow> call list
    \<Rightarrow> (ptr \<times> error option) outcome \<times> call list" where
  "process_stages V image1 imageType opts inWidth inHeight shrink residual tr =
     (case zoomImage V image1 (Zoom opts) tr of
        ((image2, err), tr1) \<Rightarrow>
          if err \<noteq> None then (Return (image1, err), tr1)
          else
          (case (if shouldTransformImage opts inWidth inHeight then
                   (case transformImage V image2 opts shrink residual tr1 of
                      (Panic, tr2) \<Rightarrow> (Panic, tr2)
                    | (Return (tmpImage, err), tr2) \<Rightarrow>
                        if err \<noteq> None then (Return (image2, err), tr2)
                        else (Return (tmpImage, None), tr2))
                 else (Return (image2, None), tr1)) of
             (Panic, tr2) \<Rightarrow> (Panic, tr2)
           | (Return (image2a, Some e), tr2) \<Rightarrow> (Return (image2a, Some e), tr2)
           | (Return (image2a, None), tr2) \<Rightarrow>
          (case (if shouldApplyEffects opts then
                   (case applyEffects V image2a opts tr2 of
                      ((tmpImage, err), tr3) \<Rightarrow>
                        if err \<noteq> None then ((image2a, err), tr3) else ((tmpImage, None), tr3))
                 else ((image2a, None), tr2)) of
             ((image2b, Some e), tr3) \<Rightarrow> (Return (image2b, Some e), tr3)
           | ((image2b, None), tr3) \<Rightarrow>
          (case watermarkImageWithText V image2b (Watermark opts) tr3 of
             (Panic, tr4) \<Rightarrow> (Panic, tr4)
           | (Return (image3, err), tr4) \<Rightarrow>
               if err \<noteq> None then (Return (image2b, err), tr4)
               else
          (case watermarkImageWithAnotherImage V image3 (WatermarkImage opts) tr4 of
             ((image4, err), tr5) \<Rightarrow>
               if err \<noteq> None then (Return (image3, err), tr5)
               else
          (case imageFlatten V image4 imageType opts tr5 of
             ((image5, err), tr6) \<Rightarrow>
               if err \<noteq> None then (Return (image4, err), tr6)
               else (Return (image5, None), tr6)))))))"

definition process ::
  "vips \<Rightarrow> ptr \<Rightarrow> ImageType \<Rightarrow> Options \<Rightarrow> bytes \<Rightarrow> call list
    \<Rightarrow> (ptr \<times> error option) outcome \<times> bytes \<times> call list" where
  "process V image0 imageType opts buf tr =
     (if \<not> IsTypeSupported V (Type opts) then
        (Return (image0, Some (errorsNew ''Unsupported image output type'')), buf, tr)
      else
        (case rotateAndFlipImage V image0 opts tr of
           ((image1, rotated, err), tr1) \<Rightarrow>
             if err \<noteq> None then (Return (image0, err), buf, tr1)
             else
               (case (if rotated \<and> imageType = JPEG \<and> \<not> NoAutoRotate opts then
                        (case native_getImageBuffer V image1 tr1 of
                           ((buf1, err1), tr2) \<Rightarrow> (buf1, err1, tr2))
                      else (buf, None, tr1)) of
                  (buf1, err1, tr2) \<Rightarrow>
                    if err1 \<noteq> None then (Return (image1, err1), buf1, tr2)
                    else
                      (case image1 of
                         None \<Rightarrow> (Panic, buf1, tr2)
                       | Some im1 \<Rightarrow>
                           let inWidth = Xsize im1; inHeight = Ysize im1 in
                           (case process_geometry V opts inWidth inHeight of
                              (factor, shrink, residual, o1) \<Rightarrow>
                                (case process_shrinkOnLoad V imageType buf1 image1 factor shrink residual tr2 of
                                   ((err2, image1a, shrink1, residual1), tr3) \<Rightarrow>
                                     if err2 \<noteq> None then (Return (image1, err2), buf1, tr3)
                                     else
                                       (case process_stages V image1a imageType o1 inWidth inHeight
                                               shrink1 residual1 tr3 of
                                          (r, tr4) \<Rightarrow> (r, buf1, tr4))))))))"

section \<open>The VipsImage wrapper\<close>

record VipsImage =
  image_c :: ptr
  srcBuf :: bytes
  imageType_c :: ImageType

text \<open>
  \<^verbatim>\<open>func (i *VipsImage) Process(o Options) error\<close>: the receiver is returned with the
  error. \<^verbatim>\<open>process\<close> is given \<^verbatim>\<open>&i.srcBuf\<close>, so what it writes to the buffer stays in
  the receiver on either path. The fields \<^verbatim>\<open>image\<close> and \<^verbatim>\<open>imageType\<close> are \<open>image_c\<close> and
  \<open>imageType_c\<close> here.
\<close>

definition Process ::
  "vips \<Rightarrow> VipsImage \<Rightarrow> Options \<Rightarrow> call list \<Rightarrow> (VipsImage \<times> error option) outcome \<times> call list" where
  "Process V i opts tr =
     (let o1 = applyDefaults V opts (imageType_c i)
      in case process V (image_c i) (imageType_c i) o1 (srcBuf i) tr of
           (Panic, buf1, tr1) \<Rightarrow> (Panic, tr1)
         | (Return (img, err), buf1, tr1) \<Rightarrow>
             let i1 = i\<lparr>srcBuf := buf1\<rparr> in
             if err \<noteq> None then (Return (i1, err), tr1)
             else (Return (i1\<lparr>image_c := img\<rparr>, None), tr1))"

section \<open>Reading the trace; concrete inputs\<close>

fun is_vipsEmbed :: "call \<Rightarrow> bool" where
  "is_vipsEmbed (vipsEmbed img left top1 width height ext bg) = True"
| "is_vipsEmbed _ = False"


text \<open>The zero value \<^verbatim>\<open>Options{}\<close>, an image of 100 by 100 pixels, and an adapter whose
  every native call succeeds.\<close>

definition zeroOptions :: Options where
  "zeroOptions =
     \<lparr>Height = 0, Width = 0, AreaHeight = 0, AreaWidth = 0, Top = 0, Left = 0,
      MaxWidth = 0, MaxHeight = 0, MinWidth = 0, MinHeight = 0,
      Quality = 0, Compression = 0, Zoom = 0,
      Crop = False, SmartCrop = False, Enlarge = False, Embed = False, Flip = False,
      Flop = False, Force = False, NoAutoRotate = False, NoProfile = False,
      Interlace = False, StripMetadata = False, Trim = False, Lossless = False,
      Extend = 0, Rotate = 0, Background = ColorBlack, Gravity = GravityCentre,
      Watermark = \<lparr>Width_wm = 0, DPI = 0, Margin = 0, Opacity_wm = 0, NoReplicate = False,
                    Text = [], Font = [], Background_wm = ColorBlack\<rparr>,
      WatermarkImage = \<lparr>Left_wi = 0, Top_wi = 0, Buf = [], Opacity_wi = 0\<rparr>,
      Type = UNKNOWN, Interpolator = 0, Interpretation = 0,
      GaussianBlur = \<lparr>Sigma = 0, MinAmpl = 0\<rparr>,
      Sharpen = \<lparr>Radius = 0, X1 = 0, Y2 = 0, Y3 = 0, M1 = 0, M2 = 0\<rparr>,
      Threshold = 0, OutputICC = []\<rparr>"

definition image100 :: C_VipsImage where
  "image100 = \<lparr>ident = 0, Xsize = 100, Ysize = 100\<rparr>"

definition image_out :: C_VipsImage where
  "image_out = \<lparr>ident = 1, Xsize = 100, Ysize = 100\<rparr>"

definition okVips :: vips where
  "okVips =
     \<lparr>IsTypeSupported = (\<lambda>t. t = JPEG \<or> t = PNG \<or> t = WEBP),
      ImageTypeName = (\<lambda>t. ''image''),
      VipsMajorVersion = 8, VipsMinorVersion = 10,
      Quality_const = 80, InterpretationSRGB = 22, WatermarkFont = ''sans 10'',
      Interpolator_String = (\<lambda>i. ''bicubic''),
      vipsWindowSize = (\<lambda>name. 4),
      vipsExifOrientation = (\<lambda>img. 0),
      run = (\<lambda>c. (Some image_out, None)),
      run_getImageBuffer = (\<lambda>img. ([], None)),
      run_vipsTrim = (\<lambda>img bg th. ((0, 0, 100, 100), None))\<rparr>"

text \<open>The same adapter with a trim detection that fails.\<close>

definition trimFailVips :: vips where
  "trimFailVips =
     okVips\<lparr>run_vipsTrim := (\<lambda>img bg th. ((0, 0, 0, 0), Some (vipsError ''trim failed'')))\<rparr>"

text \<open>An adapter whose rotation fails while every other call succeeds.\<close>

definition rotateFailVips :: vips where
  "rotateFailVips =
     okVips\<lparr>run := (\<lambda>c. case c of
                        vipsRotate img a \<Rightarrow> (None, Some (vipsError ''rotate failed''))
                      | _ \<Rightarrow> (Some image_out, None))\<rparr>"

section \<open>Specifications to compare the code with\<close>



section \<open>Arithmetic facts\<close>

lemma go_int_of_int [simp]: "go_int (of_int k) = k"
  by (simp add: go_int_def)

lemma go_int_max_0 [simp]: "go_int (max (of_int k) 0) = max k 0"
proof (cases "k < 0")
  case True
  then have "max (of_int k) (0::real) = 0" by simp
  with True show ?thesis by (simp add: go_int_def)
next
  case False
  then have "max (of_int k) (0::real) = of_int k" by simp
  with False show ?thesis by simp
qed

lemma go_int_min_270 [simp]: "go_int (min (of_int k) 270) = min k 270"
proof (cases "k \<le> 270")
  case True
  then have "min (of_int k) (270::real) = of_int k" by simp
  with True show ?thesis by simp
next
  case False
  then have "min (of_int k) (270::real) = of_int 270" by simp
  then have "go_int (min (of_int k) 270) = 270" by (simp only: go_int_of_int)
  with False show ?thesis by simp
qed


lemma smod_nonneg: "0 \<le> k \<Longrightarrow> k smod 90 = k mod (90::int)"
  by (cases "k = 0") (simp_all add: signed_modulo_int_def)

lemma getAngle_nonneg: "0 \<le> x \<Longrightarrow> getAngle x = min (90 * (x div 90)) 270"
proof -
  assume nn: "0 \<le> x"
  have "x - x mod 90 = 90 * (x div 90)"
    by (simp add: minus_mod_eq_mult_div)
  moreover have "x mod 90 = 0 \<Longrightarrow> x = 90 * (x div 90)"
    by auto
  ultimately show ?thesis using nn
    by (auto simp add: getAngle_def Let_def smod_nonneg)
qed

lemma go_int_numeral [simp]: "go_int (numeral n) = numeral n" "go_int 0 = 0" "go_int 1 = 1"
  by (simp_all add: go_int_def)

lemma clampCrop_eq: "clampCrop p = (max (fst p) 0, max (snd p) 0)"
  unfolding clampCrop_def by (simp only: go_int_max_0)


lemma getAngle_range:
  "0 \<le> x \<Longrightarrow> getAngle x = 0 \<or> getAngle x = 90 \<or> getAngle x = 180 \<or> getAngle x = 270"
proof -
  assume nn: "0 \<le> x"
  have "0 \<le> x div 90" using nn by (simp add: pos_imp_zdiv_nonneg_iff)
  then have "x div 90 = 0 \<or> x div 90 = 1 \<or> x div 90 = 2 \<or> 3 \<le> x div 90" by arith
  then show ?thesis using nn by (auto simp add: getAngle_nonneg)
qed

lemma getAngle_idem: "0 \<le> x \<Longrightarrow> getAngle (getAngle x) = getAngle x"
  using getAngle_range [of x] by (auto simp add: getAngle_nonneg)

section \<open>Crop offsets\<close>




section \<open>Angles\<close>

text \<open>
  Claim C7. \<^verbatim>\<open>getAngle\<close> has no failing path (its only division is by the constant 90).
  For every angle \<open>x \<ge> 0\<close> it returns the largest multiple of 90 that is at most \<open>x\<close>,
  capped at 270; so the result is one of 0, 90, 180, 270 and applying \<^verbatim>\<open>getAngle\<close> again
  changes nothing. In particular getAngle(45) = 0, getAngle(90) = 90, getAngle(100) = 90,
  getAngle(370) = 270 and getAngle(400) = 270.
\<close>

theorem getAngle_snaps_down:
  "0 \<le> x \<Longrightarrow>
     (getAngle x = 0 \<or> getAngle x = 90 \<or> getAngle x = 180 \<or> getAngle x = 270)
   \<and> getAngle x = min (90 * (x div 90)) 270
   \<and> getAngle (getAngle x) = getAngle x
   \<and> getAngle 45 = 0 \<and> getAngle 90 = 90 \<and> getAngle 100 = 90
   \<and> getAngle 370 = 270 \<and> getAngle 400 = 270"
  using getAngle_range [of x] getAngle_idem [of x] by (simp add: getAngle_nonneg)

theorem getAngle_snaps_down_witness:
  "getAngle 370 = 270 \<and> getAngle (getAngle 370) = getAngle 370
   \<and> getAngle 370 = min (90 * (370 div 90)) 270"
  using getAngle_snaps_down [of 370] by (simp add: getAngle_nonneg)

section \<open>The operation selector, branch by branch\<close>

lemma sel_nil: "extractOrEmbedImage V None opts tr = (Panic, tr)"
  by (simp add: extractOrEmbedImage_def)

lemma sel_smart:
  "Gravity opts = GravitySmart \<or> SmartCrop opts \<Longrightarrow>
   snd (extractOrEmbedImage V (Some im) opts tr)
     = tr @ [vipsSmartCrop (Some im) (Width opts) (Height opts)]"
  by (auto simp add: extractOrEmbedImage_def Let_def native_def split: prod.splits)

lemma sel_crop:
  "\<not> (Gravity opts = GravitySmart \<or> SmartCrop opts) \<Longrightarrow> Crop opts \<Longrightarrow>
   snd (extractOrEmbedImage V (Some im) opts tr)
     = tr @ [vipsExtract (Some im)
               (fst (clampCrop (calculateCrop (Xsize im) (Ysize im) (Width opts) (Height opts) (Gravity opts))))
               (snd (clampCrop (calculateCrop (Xsize im) (Ysize im) (Width opts) (Height opts) (Gravity opts))))
               (min (Xsize im) (Width opts)) (min (Ysize im) (Height opts))]"
  apply (simp add: extractOrEmbedImage_def Let_def native_def split: prod.splits)
  apply (auto simp add: min_def)
  done

lemma sel_embed:
  "\<not> (Gravity opts = GravitySmart \<or> SmartCrop opts) \<Longrightarrow> \<not> Crop opts \<Longrightarrow> Embed opts \<Longrightarrow>
   snd (extractOrEmbedImage V (Some im) opts tr)
     = tr @ [vipsEmbed (Some im) ((Width opts - Xsize im) sdiv 2) ((Height opts - Ysize im) sdiv 2)
               (Width opts) (Height opts) (Extend opts) (Background opts)]"
  by (auto simp add: extractOrEmbedImage_def Let_def native_def split: prod.splits)

lemma sel_trim:
  "\<not> (Gravity opts = GravitySmart \<or> SmartCrop opts) \<Longrightarrow> \<not> Crop opts \<Longrightarrow> \<not> Embed opts \<Longrightarrow>
   Trim opts \<Longrightarrow>
   extractOrEmbedImage V (Some im) opts tr
     = (case run_vipsTrim V (Some im) (Background opts) (Threshold opts) of
          ((left, top1, width, height), None) \<Rightarrow>
             (Return (fst (run V (vipsExtract (Some im) left top1 width height)), None),
              tr @ [vipsTrim (Some im) (Background opts) (Threshold opts),
                    vipsExtract (Some im) left top1 width height])
        | ((left, top1, width, height), Some e) \<Rightarrow>
             (Return (Some im, None), tr @ [vipsTrim (Some im) (Background opts) (Threshold opts)]))"
  by (simp add: extractOrEmbedImage_def Let_def native_def native_vipsTrim_def
      split: prod.splits option.splits)

lemma sel_trim_first:
  "\<not> (Gravity opts = GravitySmart \<or> SmartCrop opts) \<Longrightarrow> \<not> Crop opts \<Longrightarrow> \<not> Embed opts \<Longrightarrow>
   Trim opts \<Longrightarrow>
   take (Suc (length tr)) (snd (extractOrEmbedImage V (Some im) opts tr))
     = tr @ [vipsTrim (Some im) (Background opts) (Threshold opts)]"
  by (simp add: sel_trim split: prod.splits option.splits)

lemma sel_area:
  "\<not> (Gravity opts = GravitySmart \<or> SmartCrop opts) \<Longrightarrow> \<not> Crop opts \<Longrightarrow> \<not> Embed opts \<Longrightarrow>
   \<not> Trim opts \<Longrightarrow>
   Top opts \<noteq> 0 \<or> Left opts \<noteq> 0 \<or> AreaWidth opts \<noteq> 0 \<or> AreaHeight opts \<noteq> 0 \<Longrightarrow>
   snd (extractOrEmbedImage V (Some im) opts tr)
     = (let aw = (if AreaWidth opts = 0 then Width opts else AreaWidth opts);
            ah = (if AreaHeight opts = 0 then Height opts else AreaHeight opts)
        in if aw = 0 \<or> ah = 0 then tr
           else tr @ [vipsExtract (Some im) (Left opts) (Top opts) aw ah])"
  by (auto simp add: extractOrEmbedImage_def Let_def native_def split: prod.splits)

lemma sel_none:
  "\<not> (Gravity opts = GravitySmart \<or> SmartCrop opts) \<Longrightarrow> \<not> Crop opts \<Longrightarrow> \<not> Embed opts \<Longrightarrow>
   \<not> Trim opts \<Longrightarrow>
   \<not> (Top opts \<noteq> 0 \<or> Left opts \<noteq> 0 \<or> AreaWidth opts \<noteq> 0 \<or> AreaHeight opts \<noteq> 0) \<Longrightarrow>
   extractOrEmbedImage V (Some im) opts tr = (Return (Some im, None), tr)"
  by (auto simp add: extractOrEmbedImage_def Let_def native_def split: prod.splits)

lemma crop_never_embeds:
  "Crop opts \<Longrightarrow>
   \<not> list_ex is_vipsEmbed (drop (length tr) (snd (extractOrEmbedImage V (Some im) opts tr)))"
  apply (cases "Gravity opts = GravitySmart \<or> SmartCrop opts")
   apply (simp add: sel_smart)
  apply (simp add: sel_crop)
  done

lemma eoe_no_embed:
  assumes "\<not> Embed opts" "\<not> list_ex is_vipsEmbed tr"
  shows "\<not> list_ex is_vipsEmbed (snd (extractOrEmbedImage V img opts tr))"
proof (cases img)
  case None
  then show ?thesis using assms by (simp add: sel_nil)
next
  case (Some im)
  consider (smart) "Gravity opts = GravitySmart \<or> SmartCrop opts"
    | (crop) "\<not> (Gravity opts = GravitySmart \<or> SmartCrop opts)" "Crop opts"
    | (trim) "\<not> (Gravity opts = GravitySmart \<or> SmartCrop opts)" "\<not> Crop opts" "Trim opts"
    | (area) "\<not> (Gravity opts = GravitySmart \<or> SmartCrop opts)" "\<not> Crop opts" "\<not> Trim opts"
        "Top opts \<noteq> 0 \<or> Left opts \<noteq> 0 \<or> AreaWidth opts \<noteq> 0 \<or> AreaHeight opts \<noteq> 0"
    | (none) "\<not> (Gravity opts = GravitySmart \<or> SmartCrop opts)" "\<not> Crop opts" "\<not> Trim opts"
        "\<not> (Top opts \<noteq> 0 \<or> Left opts \<noteq> 0 \<or> AreaWidth opts \<noteq> 0 \<or> AreaHeight opts \<noteq> 0)"
    by blast
  then show ?thesis
  proof cases
    case smart
    then show ?thesis using assms Some sel_smart [of opts V im tr] by simp
  next
    case crop
    then show ?thesis using assms Some sel_crop [of opts V im tr] by simp
  next
    case trim
    then show ?thesis using assms Some sel_trim [of opts V im tr]
      by (simp split: prod.splits option.splits)
  next
    case area
    then show ?thesis using assms Some sel_area [of opts V im tr]
      by (simp add: Let_def)
  next
    case none
    then show ?thesis using assms Some sel_none [of opts V im tr] by simp
  qed
qed

text \<open>
  Claim C4. \<^verbatim>\<open>extractOrEmbedImage\<close> takes the first case that matches, in the order of
  its switch: smart crop (gravity Smart or the SmartCrop flag), then Crop, then Embed, then
  Trim, then area extraction, then nothing. The six conditions below exclude one another
  and cover every options value, and each one fixes the native call that is made (for
  Trim the first call; for no match, no call at all and the image is returned as it is):
  exactly one outcome applies. With Crop set, no embed call is ever made, whatever Embed
  says; and with Crop and Embed both set and no smart crop requested, the call made is the
  crop's \<^verbatim>\<open>vipsExtract\<close>.
\<close>

theorem extractOrEmbedImage_priority:
  "(Gravity opts = GravitySmart \<or> SmartCrop opts \<longrightarrow>
      snd (extractOrEmbedImage V (Some im) opts tr)
        = tr @ [vipsSmartCrop (Some im) (Width opts) (Height opts)])
   \<and> (\<not> (Gravity opts = GravitySmart \<or> SmartCrop opts) \<and> Crop opts \<longrightarrow>
      snd (extractOrEmbedImage V (Some im) opts tr)
        = tr @ [vipsExtract (Some im)
                  (fst (clampCrop (calculateCrop (Xsize im) (Ysize im) (Width opts) (Height opts) (Gravity opts))))
                  (snd (clampCrop (calculateCrop (Xsize im) (Ysize im) (Width opts) (Height opts) (Gravity opts))))
                  (min (Xsize im) (Width opts)) (min (Ysize im) (Height opts))])
   \<and> (\<not> (Gravity opts = GravitySmart \<or> SmartCrop opts) \<and> \<not> Crop opts \<and> Embed opts \<longrightarrow>
      snd (extractOrEmbedImage V (Some im) opts tr)
        = tr @ [vipsEmbed (Some im) ((Width opts - Xsize im) sdiv 2) ((Height opts - Ysize im) sdiv 2)
                  (Width opts) (Height opts) (Extend opts) (Background opts)])
   \<and> (\<not> (Gravity opts = GravitySmart \<or> SmartCrop opts) \<and> \<not> Crop opts \<and> \<not> Embed opts
        \<and> Trim opts \<longrightarrow>
      take (Suc (length tr)) (snd (extractOrEmbedImage V (Some im) opts tr))
        = tr @ [vipsTrim (Some im) (Background opts) (Threshold opts)])
   \<and> (\<not> (Gravity opts = GravitySmart \<or> SmartCrop opts) \<and> \<not> Crop opts \<and> \<not> Embed opts
        \<and> \<not> Trim opts
        \<and> (Top opts \<noteq> 0 \<or> Left opts \<noteq> 0 \<or> AreaWidth opts \<noteq> 0 \<or> AreaHeight opts \<noteq> 0) \<longrightarrow>
      snd (extractOrEmbedImage V (Some im) opts tr)
        = (let aw = (if AreaWidth opts = 0 then Width opts else AreaWidth opts);
               ah = (if AreaHeight opts = 0 then Height opts else AreaHeight opts)
           in if aw = 0 \<or> ah = 0 then tr
              else tr @ [vipsExtract (Some im) (Left opts) (Top opts) aw ah]))
   \<and> (\<not> (Gravity opts = GravitySmart \<or> SmartCrop opts) \<and> \<not> Crop opts \<and> \<not> Embed opts
        \<and> \<not> Trim opts
        \<and> \<not> (Top opts \<noteq> 0 \<or> Left opts \<noteq> 0 \<or> AreaWidth opts \<noteq> 0 \<or> AreaHeight opts \<noteq> 0) \<longrightarrow>
      extractOrEmbedImage V (Some im) opts tr = (Return (Some im, None), tr))
   \<and> (Crop opts \<and> Embed opts \<longrightarrow>
      \<not> list_ex is_vipsEmbed (drop (length tr) (snd (extractOrEmbedImage V (Some im) opts tr))))"
  using sel_smart [of opts V im tr] sel_crop [of opts V im tr] sel_embed [of opts V im tr]
    sel_trim_first [of opts tr V im] sel_area [of opts V im tr] sel_none [of opts V im tr]
    crop_never_embeds [of opts tr V im]
  by blast

theorem extractOrEmbedImage_priority_witness:
  "extractOrEmbedImage okVips (Some image100)
      (zeroOptions\<lparr>Crop := True, Embed := True, Width := 50, Height := 40\<rparr>) []
    = (Return (Some image_out, None), [vipsExtract (Some image100) 25 30 50 40])"
  using extractOrEmbedImage_priority
    [of "zeroOptions\<lparr>Crop := True, Embed := True, Width := 50, Height := 40\<rparr>"
        okVips image100 "[]"]
  by (simp add: extractOrEmbedImage_def zeroOptions_def okVips_def image100_def image_out_def
      native_def Let_def clampCrop_eq signed_divide_int_def)

section \<open>Area extraction without a size\<close>

text \<open>
  Claim C3, at the code. When the area case is reached with AreaWidth = 0 and
  AreaHeight = 0, the two default to Width and Height: with both of these non-zero the
  extraction is made at (Left, Top) with size (Width, Height). With Width = 0 and
  Height = 0 nothing is extracted, and the operation returns a nil image and the error
  \<^verbatim>\<open>errors.New("Extract area width/height params are required")\<close>. That error is not the
  package's \<^verbatim>\<open>ErrExtractAreaParamsRequired\<close>: it is built on the spot, and even its message
  differs (a capital E).
\<close>

theorem area_extract_params_required:
  assumes "\<not> (Gravity opts = GravitySmart \<or> SmartCrop opts)" "\<not> Crop opts" "\<not> Embed opts"
    and "\<not> Trim opts" and "Top opts \<noteq> 0 \<or> Left opts \<noteq> 0"
    and "AreaWidth opts = 0" "AreaHeight opts = 0"
  shows "(Width opts \<noteq> 0 \<and> Height opts \<noteq> 0 \<longrightarrow>
            snd (extractOrEmbedImage V (Some im) opts tr)
              = tr @ [vipsExtract (Some im) (Left opts) (Top opts) (Width opts) (Height opts)])
         \<and> (Width opts = 0 \<and> Height opts = 0 \<longrightarrow>
            extractOrEmbedImage V (Some im) opts tr
              = (Return (None, Some (errorsNew ''Extract area width/height params are required'')), tr))
         \<and> errorsNew ''Extract area width/height params are required'' \<noteq> ErrExtractAreaParamsRequired"
  using assms
  by (auto simp add: extractOrEmbedImage_def Let_def native_def ErrExtractAreaParamsRequired_def
      split: prod.splits)

theorem area_extract_params_required_witness:
  "extractOrEmbedImage okVips (Some image100) (zeroOptions\<lparr>Top := 10\<rparr>) []
     = (Return (None, Some (errorsNew ''Extract area width/height params are required'')), [])
   \<and> snd (extractOrEmbedImage okVips (Some image100)
            (zeroOptions\<lparr>Top := 10, Width := 50, Height := 40\<rparr>) [])
     = [vipsExtract (Some image100) 0 10 50 40]"
  using area_extract_params_required [of "zeroOptions\<lparr>Top := 10\<rparr>" okVips image100 "[]"]
    area_extract_params_required
      [of "zeroOptions\<lparr>Top := 10, Width := 50, Height := 40\<rparr>" okVips image100 "[]"]
  by (simp add: zeroOptions_def)

section \<open>Force and the operation selector\<close>

lemma te_force:
  "Force opts \<Longrightarrow>
   transformImage_extract V img opts tr =
     (case extractOrEmbedImage V img (opts\<lparr>Crop := False, Embed := False\<rparr>) tr of
        (Panic, tr1) \<Rightarrow> (Panic, tr1)
      | (Return (imageOut, err), tr1) \<Rightarrow>
          if err \<noteq> None then (Return (img, err), tr1) else (Return (imageOut, None), tr1))"
  by (simp add: transformImage_extract_def)

lemma te_force_indep:
  "Force opts \<Longrightarrow>
   transformImage_extract V img opts tr
     = transformImage_extract V img (opts\<lparr>Crop := False, Embed := False\<rparr>) tr"
  by (simp add: transformImage_extract_def)

lemma tres_force_indep:
  assumes "Force opts"
  shows "transformImage_resize V img opts residual tr
     = transformImage_resize V img (opts\<lparr>Crop := False, Embed := False\<rparr>) residual' tr"
proof (cases img)
  case None
  then show ?thesis using assms by (simp add: transformImage_resize_def)
next
  case (Some im)
  show ?thesis using assms Some te_force_indep [OF assms]
    by (simp add: transformImage_resize_def split: prod.split)
qed

lemma shrinkImage_indep:
  "shrinkImage V img opts residual shrink tr = (Panic, tr1) \<Longrightarrow>
   shrinkImage V img (opts\<lparr>Crop := False, Embed := False\<rparr>) residual shrink tr = (Panic, tr1)"
  "shrinkImage V img opts residual shrink tr = (Return (t, r, e), tr1) \<Longrightarrow>
   \<exists>r'. shrinkImage V img (opts\<lparr>Crop := False, Embed := False\<rparr>) residual shrink tr
          = (Return (t, r', e), tr1)"
  by (auto simp add: shrinkImage_def Let_def split: prod.splits option.splits if_splits)

lemma ti_force_indep:
  assumes "Force opts"
  shows "transformImage V img opts shrink residual tr
     = transformImage V img (opts\<lparr>Crop := False, Embed := False\<rparr>) shrink residual tr"
proof (cases "shrink > 1")
  case False
  then show ?thesis using tres_force_indep [OF assms]
    by (simp add: transformImage_def)
next
  case True
  obtain r tr1 where s: "shrinkImage V img opts residual shrink tr = (r, tr1)"
    by (cases "shrinkImage V img opts residual shrink tr")
  show ?thesis
  proof (cases r)
    case Panic
    with s shrinkImage_indep(1) [of V img opts residual shrink tr tr1] True
    show ?thesis by (simp add: transformImage_def)
  next
    case (Return x)
    obtain t rr e where x: "x = (t, rr, e)" by (cases x)
    from s Return x shrinkImage_indep(2) [of V img opts residual shrink tr t rr e tr1]
    obtain r' where s': "shrinkImage V img (opts\<lparr>Crop := False, Embed := False\<rparr>) residual shrink tr
        = (Return (t, r', e), tr1)" by auto
    show ?thesis using True s s' Return x tres_force_indep [OF assms, of V t rr tr1 r']
      by (simp add: transformImage_def)
  qed
qed

lemma te_snd:
  "snd (transformImage_extract V img opts tr)
     = snd (extractOrEmbedImage V img
              (if Force opts then opts\<lparr>Crop := False, Embed := False\<rparr> else opts) tr)"
  by (simp add: transformImage_extract_def Let_def split: prod.splits outcome.splits)

lemma te_no_embed:
  "Force opts \<Longrightarrow> \<not> list_ex is_vipsEmbed tr \<Longrightarrow>
   \<not> list_ex is_vipsEmbed (snd (transformImage_extract V img opts tr))"
  using eoe_no_embed [of "opts\<lparr>Crop := False, Embed := False\<rparr>" tr V img]
  by (simp add: te_snd)

lemma tres_no_embed:
  assumes "Force opts" "\<not> list_ex is_vipsEmbed tr"
  shows "\<not> list_ex is_vipsEmbed (snd (transformImage_resize V img opts residual tr))"
proof (cases img)
  case None
  then show ?thesis using assms by (simp add: transformImage_resize_def)
next
  case (Some im)
  have a: "\<And>c t. \<not> is_vipsEmbed c \<Longrightarrow>
      \<not> list_ex is_vipsEmbed (snd (transformImage_extract V t opts (tr @ [c])))"
    using assms by (simp add: te_no_embed)
  show ?thesis using assms Some
    by (simp add: transformImage_resize_def native_def a split: prod.split)
qed

lemma shrinkImage_trace:
  "snd (shrinkImage V img opts residual shrink tr) = tr @ [vipsShrink img shrink]"
  by (simp add: shrinkImage_def native_def Let_def split: prod.splits option.splits)

lemma ti_no_embed:
  assumes "Force opts" "\<not> list_ex is_vipsEmbed tr"
  shows "\<not> list_ex is_vipsEmbed (snd (transformImage V img opts shrink residual tr))"
proof (cases "shrink > 1")
  case False
  then show ?thesis using tres_no_embed [OF assms] by (simp add: transformImage_def)
next
  case True
  obtain r tr1 where s: "shrinkImage V img opts residual shrink tr = (r, tr1)"
    by (cases "shrinkImage V img opts residual shrink tr")
  have tr1: "tr1 = tr @ [vipsShrink img shrink]"
    using shrinkImage_trace [of V img opts residual shrink tr] s by simp
  then have ne: "\<not> list_ex is_vipsEmbed tr1" using assms by simp
  show ?thesis
  proof (cases r)
    case Panic
    then show ?thesis using True s ne by (simp add: transformImage_def)
  next
    case (Return x)
    obtain t rr e where x: "x = (t, rr, e)" by (cases x)
    show ?thesis using True s Return x ne tres_no_embed [OF assms(1) ne, of V t rr]
      by (simp add: transformImage_def)
  qed
qed

lemma te_force_passes:
  assumes "Force opts" "\<not> (Gravity opts = GravitySmart \<or> SmartCrop opts)" "\<not> Trim opts"
    and "Top opts = 0" "Left opts = 0" "AreaWidth opts = 0" "AreaHeight opts = 0"
  shows "transformImage_extract V (Some im) opts tr = (Return (Some im, None), tr)"
  using assms sel_none [of "opts\<lparr>Crop := False, Embed := False\<rparr>" V im tr]
  by (simp add: te_force)

text \<open>
  Claim C5. With Force set, \<^verbatim>\<open>transformImage\<close> calls \<^verbatim>\<open>extractOrEmbedImage\<close> with
  Crop = false and Embed = false, whatever the caller asked for: at the end of the function
  (first conjunct), so that the two flags have no influence on the whole of
  \<^verbatim>\<open>transformImage\<close> (second conjunct) and no embed call is ever made by it (third). When
  nothing but Crop and Embed asks for a spatial operation, the forced image is returned as
  it is (fourth).
\<close>

theorem force_disables_crop_and_embed:
  "Force opts \<Longrightarrow>
     transformImage_extract V img opts tr =
       (case extractOrEmbedImage V img (opts\<lparr>Crop := False, Embed := False\<rparr>) tr of
          (Panic, tr1) \<Rightarrow> (Panic, tr1)
        | (Return (imageOut, err), tr1) \<Rightarrow>
            if err \<noteq> None then (Return (img, err), tr1) else (Return (imageOut, None), tr1))
   \<and> transformImage V img opts shrink residual tr
       = transformImage V img (opts\<lparr>Crop := False, Embed := False\<rparr>) shrink residual tr
   \<and> \<not> list_ex is_vipsEmbed (snd (transformImage V img opts shrink residual []))
   \<and> (\<not> (Gravity opts = GravitySmart \<or> SmartCrop opts) \<and> \<not> Trim opts
        \<and> Top opts = 0 \<and> Left opts = 0 \<and> AreaWidth opts = 0 \<and> AreaHeight opts = 0 \<longrightarrow>
       transformImage_extract V (Some im) opts tr = (Return (Some im, None), tr))"
  using te_force [of opts V img tr] ti_force_indep [of opts V img shrink residual tr]
    ti_no_embed [of opts "[]" V img shrink residual] te_force_passes [of opts V im tr]
  by simp

theorem force_disables_crop_and_embed_witness:
  "transformImage okVips (Some image100)
      (zeroOptions\<lparr>Force := True, Crop := True, Embed := True, Width := 50, Height := 50\<rparr>) 1 1 []
    = (Return (Some image_out, None), [vipsReduce (Some image100) 2 2])"
  using force_disables_crop_and_embed
    [of "zeroOptions\<lparr>Force := True, Crop := True, Embed := True, Width := 50, Height := 50\<rparr>"
        okVips "Some image100" "[]" 1 1 image100]
  by (simp add: transformImage_def transformImage_resize_def transformImage_extract_def
      extractOrEmbedImage_def zeroOptions_def okVips_def image100_def image_out_def native_def Let_def)

section \<open>Effects\<close>



lemma effects_blur_fails:
  assumes "Sigma (GaussianBlur opts) > 0 \<or> MinAmpl (GaussianBlur opts) > 0"
    and "snd (run V (vipsGaussianBlur img (GaussianBlur opts))) = Some e"
  shows "applyEffects V img opts tr
           = ((None, Some e), tr @ [vipsGaussianBlur img (GaussianBlur opts)])"
proof -
  obtain b where "run V (vipsGaussianBlur img (GaussianBlur opts)) = (b, Some e)"
    using assms(2) by (cases "run V (vipsGaussianBlur img (GaussianBlur opts))") simp
  then show ?thesis using assms(1) by (simp add: applyEffects_def native_def)
qed






section \<open>Evaluating the pipeline\<close>

lemmas eval_defs = process_def process_geometry_def process_shrinkOnLoad_def process_stages_def
  rotateAndFlipImage_def calculateRotationAndFlip_def normalizeOperation_def imageCalculations_def
  calculateShrink_def calculateResidual_def zoomImage_def shouldTransformImage_def
  shouldApplyEffects_def transformImage_def transformImage_resize_def transformImage_extract_def
  extractOrEmbedImage_def applyEffects_def watermarkImageWithText_def
  watermarkImageWithAnotherImage_def imageFlatten_def applyDefaults_def native_def
  native_vipsTrim_def native_getImageBuffer_def
  zeroOptions_def okVips_def image100_def image_out_def D0_def Let_def

lemma process_unsupported:
  "process okVips (Some image100) JPEG (applyDefaults okVips (zeroOptions\<lparr>Type := TIFF\<rparr>) JPEG) [] []
     = (Return (Some image100, Some (errorsNew ''Unsupported image output type'')), [], [])"
  by (simp add: process_def applyDefaults_def zeroOptions_def okVips_def Let_def)

lemma process_resize_ok:
  "process okVips (Some image100) JPEG
      (applyDefaults okVips (zeroOptions\<lparr>Width := 50, Height := 50\<rparr>) JPEG) [] []
     = (Return (Some image_out, None), [], [vipsReduce (Some image100) 2 2])"
  by (simp add: eval_defs)

section \<open>The wrapper's Process\<close>

lemma Process_error:
  "process V (image_c i) (imageType_c i) (applyDefaults V opts (imageType_c i)) (srcBuf i) tr
     = (Return (img, Some e), buf1, tr1) \<Longrightarrow>
   Process V i opts tr = (Return (i\<lparr>srcBuf := buf1\<rparr>, Some e), tr1)"
  by (simp add: Process_def Let_def)

lemma Process_success:
  "process V (image_c i) (imageType_c i) (applyDefaults V opts (imageType_c i)) (srcBuf i) tr
     = (Return (img, None), buf1, tr1) \<Longrightarrow>
   Process V i opts tr = (Return (i\<lparr>srcBuf := buf1, image_c := img\<rparr>, None), tr1)"
  by (simp add: Process_def Let_def)

text \<open>
  Claim C10. If the call of \<^verbatim>\<open>process\<close> that \<^verbatim>\<open>Process\<close> makes returns an error, then
  \<^verbatim>\<open>Process\<close> returns that error and the receiver keeps its image handle; the handle is
  replaced, by the one \<^verbatim>\<open>process\<close> returned, only when \<^verbatim>\<open>process\<close> succeeds. (The source
  buffer of the receiver is the one \<^verbatim>\<open>process\<close> left, on both paths.)
\<close>

theorem Process_atomic_on_error:
  "(process V (image_c i) (imageType_c i) (applyDefaults V opts (imageType_c i)) (srcBuf i) tr
      = (Return (img, Some e), buf1, tr1) \<longrightarrow>
    Process V i opts tr = (Return (i\<lparr>srcBuf := buf1\<rparr>, Some e), tr1)
    \<and> image_c (i\<lparr>srcBuf := buf1\<rparr>) = image_c i)
   \<and> (process V (image_c i) (imageType_c i) (applyDefaults V opts (imageType_c i)) (srcBuf i) tr
      = (Return (img, None), buf1, tr1) \<longrightarrow>
    Process V i opts tr = (Return (i\<lparr>srcBuf := buf1, image_c := img\<rparr>, None), tr1))"
  using Process_error [of V i opts tr img e buf1 tr1] Process_success [of V i opts tr img buf1 tr1]
  by simp

theorem Process_atomic_on_error_witness:
  "Process okVips \<lparr>image_c = Some image100, srcBuf = [], imageType_c = JPEG\<rparr>
      (zeroOptions\<lparr>Type := TIFF\<rparr>) []
     = (Return (\<lparr>image_c = Some image100, srcBuf = [], imageType_c = JPEG\<rparr>,
                Some (errorsNew ''Unsupported image output type'')), [])
   \<and> Process okVips \<lparr>image_c = Some image100, srcBuf = [], imageType_c = JPEG\<rparr>
      (zeroOptions\<lparr>Width := 50, Height := 50\<rparr>) []
     = (Return (\<lparr>image_c = Some image_out, srcBuf = [], imageType_c = JPEG\<rparr>, None),
        [vipsReduce (Some image100) 2 2])"
  using Process_atomic_on_error
      [of okVips "\<lparr>image_c = Some image100, srcBuf = [], imageType_c = JPEG\<rparr>"
          "zeroOptions\<lparr>Type := TIFF\<rparr>" "[]" "Some image100"
          "errorsNew ''Unsupported image output type''" "[]" "[]"]
    Process_atomic_on_error
      [of okVips "\<lparr>image_c = Some image100, srcBuf = [], imageType_c = JPEG\<rparr>"
          "zeroOptions\<lparr>Width := 50, Height := 50\<rparr>" "[]" "Some image_out" _ "[]"
          "[vipsReduce (Some image100) 2 2]"]
    process_unsupported process_resize_ok
  by simp

section \<open>Normalization and the target size\<close>










section \<open>The "do not enlarge" guard\<close>





section \<open>Error propagation in the pipeline\<close>

text \<open>
  What \<^verbatim>\<open>process\<close> does with an error that one of its stages returns: it returns at once,
  with that error and the handle it held before the stage, and the trace ends with the
  calls of that stage.
\<close>

lemma process_stops_at_type_check:
  "\<not> IsTypeSupported V (Type opts) \<Longrightarrow>
   process V image0 imageType opts buf tr
     = (Return (image0, Some (errorsNew ''Unsupported image output type'')), buf, tr)"
  by (simp add: process_def)

lemma process_stops_at_rotate:
  "IsTypeSupported V (Type opts) \<Longrightarrow>
   rotateAndFlipImage V image0 opts tr = ((image1, rotated, Some e), tr1) \<Longrightarrow>
   process V image0 imageType opts buf tr = (Return (image0, Some e), buf, tr1)"
  by (simp add: process_def)

lemma process_stops_at_getImageBuffer:
  "IsTypeSupported V (Type opts) \<Longrightarrow>
   rotateAndFlipImage V image0 opts tr = ((image1, True, None), tr1) \<Longrightarrow>
   imageType = JPEG \<Longrightarrow> \<not> NoAutoRotate opts \<Longrightarrow>
   run_getImageBuffer V image1 = (buf1, Some e) \<Longrightarrow>
   process V image0 imageType opts buf tr
     = (Return (image1, Some e), buf1, tr1 @ [getImageBuffer image1])"
  by (simp add: process_def native_getImageBuffer_def)

lemma process_stops_at_zoom:
  "zoomImage V image1 (Zoom opts) tr = ((image2, Some e), tr1) \<Longrightarrow>
   process_stages V image1 imageType opts inWidth inHeight shrink residual tr
     = (Return (image1, Some e), tr1)"
  by (simp add: process_stages_def)

lemma process_stops_at_transform:
  "zoomImage V image1 (Zoom opts) tr = ((image2, None), tr1) \<Longrightarrow>
   shouldTransformImage opts inWidth inHeight \<Longrightarrow>
   transformImage V image2 opts shrink residual tr1 = (Return (t, Some e), tr2) \<Longrightarrow>
   process_stages V image1 imageType opts inWidth inHeight shrink residual tr
     = (Return (image2, Some e), tr2)"
  by (simp add: process_stages_def)

lemma process_stops_at_effects:
  "zoomImage V image1 (Zoom opts) tr = ((image2, None), tr1) \<Longrightarrow>
   \<not> shouldTransformImage opts inWidth inHeight \<Longrightarrow>
   shouldApplyEffects opts \<Longrightarrow>
   applyEffects V image2 opts tr1 = ((t, Some e), tr2) \<Longrightarrow>
   process_stages V image1 imageType opts inWidth inHeight shrink residual tr
     = (Return (image2, Some e), tr2)"
  by (simp add: process_stages_def)

lemma process_stops_at_watermark:
  "zoomImage V image1 (Zoom opts) tr = ((image2, None), tr1) \<Longrightarrow>
   \<not> shouldTransformImage opts inWidth inHeight \<Longrightarrow>
   \<not> shouldApplyEffects opts \<Longrightarrow>
   watermarkImageWithText V image2 (Watermark opts) tr1 = (Return (t, Some e), tr2) \<Longrightarrow>
   process_stages V image1 imageType opts inWidth inHeight shrink residual tr
     = (Return (image2, Some e), tr2)"
  by (simp add: process_stages_def)

lemma process_stops_at_watermark_image:
  "zoomImage V image1 (Zoom opts) tr = ((image2, None), tr1) \<Longrightarrow>
   \<not> shouldTransformImage opts inWidth inHeight \<Longrightarrow>
   \<not> shouldApplyEffects opts \<Longrightarrow>
   watermarkImageWithText V image2 (Watermark opts) tr1 = (Return (image3, None), tr2) \<Longrightarrow>
   watermarkImageWithAnotherImage V image3 (WatermarkImage opts) tr2 = ((t, Some e), tr3) \<Longrightarrow>
   process_stages V image1 imageType opts inWidth inHeight shrink residual tr
     = (Return (image3, Some e), tr3)"
  by (simp add: process_stages_def)

lemma process_stops_at_flatten:
  "zoomImage V image1 (Zoom opts) tr = ((image2, None), tr1) \<Longrightarrow>
   \<not> shouldTransformImage opts inWidth inHeight \<Longrightarrow>
   \<not> shouldApplyEffects opts \<Longrightarrow>
   watermarkImageWithText V image2 (Watermark opts) tr1 = (Return (image3, None), tr2) \<Longrightarrow>
   watermarkImageWithAnotherImage V image3 (WatermarkImage opts) tr2 = ((image4, None), tr3) \<Longrightarrow>
   imageFlatten V image4 imageType opts tr3 = ((t, Some e), tr4) \<Longrightarrow>
   process_stages V image1 imageType opts inWidth inHeight shrink residual tr
     = (Return (image4, Some e), tr4)"
  by (simp add: process_stages_def)

text \<open>
  Two native failures never become the error of their stage. In the trim case of
  \<^verbatim>\<open>extractOrEmbedImage\<close> the error of \<^verbatim>\<open>vipsTrim\<close> (and of the \<^verbatim>\<open>vipsExtract\<close> after it) is
  held by a variable that shadows the one the function returns. In \<^verbatim>\<open>rotateAndFlipImage\<close>
  the error of the rotation is overwritten by the result of a flip that follows it.
\<close>

lemma trim_error_is_dropped:
  assumes "\<not> (Gravity opts = GravitySmart \<or> SmartCrop opts)" "\<not> Crop opts" "\<not> Embed opts"
    "Trim opts"
    and "snd (run_vipsTrim V (Some im) (Background opts) (Threshold opts)) = Some e"
  shows "extractOrEmbedImage V (Some im) opts tr
           = (Return (Some im, None), tr @ [vipsTrim (Some im) (Background opts) (Threshold opts)])"
  using assms sel_trim [of opts V im tr]
  by (cases "run_vipsTrim V (Some im) (Background opts) (Threshold opts)") (simp split: prod.splits)

lemma rotate_error_is_overwritten:
  "rotateAndFlipImage rotateFailVips (Some image100) (zeroOptions\<lparr>Rotate := 90, Flip := True\<rparr>) []
    = ((Some image_out, True, None),
       [vipsRotate (Some image100) 90, vipsFlip None Vertical])"
  by (simp add: rotateAndFlipImage_def calculateRotationAndFlip_def rotateFailVips_def okVips_def
      zeroOptions_def native_def Let_def D0_def getAngle_nonneg)

text \<open>
  Claim C2, at a failing input. The options ask for a trim and a text watermark on an
  image of 100 by 100; the trim detection of the native library fails. \<^verbatim>\<open>process\<close> does
  not stop: the watermark stage runs after the failure, and \<^verbatim>\<open>process\<close> returns an image
  and no error.
\<close>

theorem trim_failure_is_swallowed:
  "process trimFailVips (Some image100) PNG
      (zeroOptions\<lparr>Type := PNG, Trim := True,
                   Watermark := (Watermark zeroOptions)\<lparr>Text := ''x''\<rparr>\<rparr>) [] []
    = (Return (Some image_out, None), [],
       [vipsAffine (Some image100) 1 1 0,
        vipsTrim (Some image_out) ColorBlack 0,
        vipsWatermark (Some image_out)
          \<lparr>Width_wm = 16, DPI = 150, Margin = 16, Opacity_wm = 0.25, NoReplicate = False,
           Text = ''x'', Font = ''sans 10'', Background_wm = ColorBlack\<rparr>])"
  by (simp add: eval_defs trimFailVips_def signed_divide_int_def)

theorem trim_failure_is_swallowed_witness:
  "fst (process trimFailVips (Some image100) PNG
      (zeroOptions\<lparr>Type := PNG, Trim := True,
                   Watermark := (Watermark zeroOptions)\<lparr>Text := ''x''\<rparr>\<rparr>) [] [])
    = Return (Some image_out, None)
   \<and> snd (run_vipsTrim trimFailVips (Some image_out) ColorBlack 0) = Some (vipsError ''trim failed'')"
  using trim_failure_is_swallowed by (simp add: trimFailVips_def)

end
